theory Spec2Isabelle
  imports Complex_Main
begin

section \<open>PREVENT risk equations (src/lib/prevent-equations.ts)\<close>

text \<open>
  A shallow embedding of the scoring engine. The inputs, the helper functions and the
  log odds are read in exact arithmetic: a TypeScript \<open>number\<close> there is a
  \<^typ>\<open>real\<close>, so the inputs are finite numbers and the rounding of doubles is not
  represented. The percentages that the engine returns are doubles with their
  non-finite values (type \<open>js_number\<close> below): the conversion of the log odds calls
  \<open>Math.exp\<close>, which overflows to \<open>Infinity\<close>, and the model follows the IEEE rules for
  what \<open>*\<close>, \<open>+\<close> and \<open>/\<close> then return. An optional field (\<open>tc?: number\<close>) is a
  \<^typ>\<open>real option\<close> and a nullable result (\<open>number | null\<close>) a \<open>js_number option\<close>,
  with \<open>None\<close> for undefined and for null.
\<close>

subsection \<open>Helper functions\<close>

text \<open>\<open>sdicat\<close>: SDI decile to tertile, with the fallback \<open>0\<close>.\<close>

definition sdicat :: "real \<Rightarrow> real" where
  "sdicat d =
     (if d \<ge> 1 \<and> d < 4 then 0
      else if d \<ge> 4 \<and> d < 7 then 1
      else if d \<ge> 7 \<and> d \<le> 10 then 2
      else 0)"

definition mmol_conversion :: "real \<Rightarrow> real" where
  "mmol_conversion cholesterol = 0.02586 * cholesterol"

text \<open>\<open>adjust\<close>: any \<open>0 \<le> uacr < 0.1\<close> becomes \<open>0.1\<close>.\<close>

definition adjust :: "real \<Rightarrow> real" where
  "adjust u =
     (if u \<ge> 0.1 then u
      else if u \<ge> 0 \<and> u < 0.1 then 0.1
      else u)"

text \<open>
  The operator \<open>v || d\<close> on an optional number: \<open>d\<close> when \<open>v\<close> is undefined or \<open>0\<close>
  (the falsy numbers of the model), \<open>v\<close> otherwise.
\<close>

definition or_num :: "real option \<Rightarrow> real \<Rightarrow> real" where
  "or_num v d = (case v of None \<Rightarrow> d | Some x \<Rightarrow> if x = 0 then d else x)"

subsection \<open>Doubles: overflow, infinities and NaN\<close>

text \<open>
  A result of double arithmetic: a finite number, \<open>Infinity\<close>, \<open>-Infinity\<close> or \<open>NaN\<close>.
  A finite number is the exact value of the operation (no rounding, no underflow,
  and one zero, the positive one). An exact value leaves the range of the doubles,
  and the operation returns an infinity, when its magnitude reaches the largest double
  \<open>(2^53 - 1) * 2^971\<close> plus half a unit in its last place, \<open>2^970\<close>; that bound is
  \<open>double_overflow\<close>.
\<close>

datatype js_number = Finite real | Infinity | NegInfinity | NaN

definition double_overflow :: real where
  "double_overflow = (2 ^ 54 - 1) * 2 ^ 970"

definition to_double :: "real \<Rightarrow> js_number" where
  "to_double r =
     (if double_overflow \<le> r then Infinity
      else if r \<le> - double_overflow then NegInfinity
      else Finite r)"

text \<open>
  \<open>Math.exp\<close> on a finite argument. ECMAScript leaves its precision to the
  implementation; the model takes the exact exponential, and so places the overflow at
  \<open>double_overflow\<close> exactly (log odds of about 709.78).
\<close>

definition Math_exp :: "real \<Rightarrow> js_number" where
  "Math_exp x = to_double (exp x)"

text \<open>The operators \<open>*\<close>, \<open>+\<close> and \<open>/\<close> on doubles.\<close>

fun js_times :: "js_number \<Rightarrow> js_number \<Rightarrow> js_number" where
  "js_times NaN _ = NaN"
| "js_times _ NaN = NaN"
| "js_times (Finite a) (Finite b) = to_double (a * b)"
| "js_times (Finite a) Infinity =
     (if a = 0 then NaN else if 0 < a then Infinity else NegInfinity)"
| "js_times (Finite a) NegInfinity =
     (if a = 0 then NaN else if 0 < a then NegInfinity else Infinity)"
| "js_times Infinity (Finite b) =
     (if b = 0 then NaN else if 0 < b then Infinity else NegInfinity)"
| "js_times NegInfinity (Finite b) =
     (if b = 0 then NaN else if 0 < b then NegInfinity else Infinity)"
| "js_times Infinity Infinity = Infinity"
| "js_times Infinity NegInfinity = NegInfinity"
| "js_times NegInfinity Infinity = NegInfinity"
| "js_times NegInfinity NegInfinity = Infinity"

fun js_plus :: "js_number \<Rightarrow> js_number \<Rightarrow> js_number" where
  "js_plus NaN _ = NaN"
| "js_plus _ NaN = NaN"
| "js_plus (Finite a) (Finite b) = to_double (a + b)"
| "js_plus (Finite a) Infinity = Infinity"
| "js_plus (Finite a) NegInfinity = NegInfinity"
| "js_plus Infinity (Finite b) = Infinity"
| "js_plus NegInfinity (Finite b) = NegInfinity"
| "js_plus Infinity Infinity = Infinity"
| "js_plus NegInfinity NegInfinity = NegInfinity"
| "js_plus Infinity NegInfinity = NaN"
| "js_plus NegInfinity Infinity = NaN"

fun js_divide :: "js_number \<Rightarrow> js_number \<Rightarrow> js_number" where
  "js_divide NaN _ = NaN"
| "js_divide _ NaN = NaN"
| "js_divide (Finite a) (Finite b) =
     (if b = 0 then (if a = 0 then NaN else if 0 < a then Infinity else NegInfinity)
      else to_double (a / b))"
| "js_divide (Finite a) Infinity = Finite 0"
| "js_divide (Finite a) NegInfinity = Finite 0"
| "js_divide Infinity (Finite b) = (if 0 \<le> b then Infinity else NegInfinity)"
| "js_divide NegInfinity (Finite b) = (if 0 \<le> b then NegInfinity else Infinity)"
| "js_divide Infinity Infinity = NaN"
| "js_divide Infinity NegInfinity = NaN"
| "js_divide NegInfinity Infinity = NaN"
| "js_divide NegInfinity NegInfinity = NaN"

subsection \<open>Data model\<close>

text \<open>The declared type of the tag: \<open>'base' | 'uacr' | 'hba1c' | 'sdi' | 'full'\<close>.\<close>

datatype model_tag = Base | Uacr | Hba1c | Sdi | Full

record PreventResults =
  prevent_10yr_CVD :: "js_number option"
  prevent_30yr_CVD :: "js_number option"
  prevent_10yr_ASCVD :: "js_number option"
  prevent_30yr_ASCVD :: "js_number option"
  prevent_10yr_HF :: "js_number option"
  prevent_30yr_HF :: "js_number option"
  model :: model_tag

record PreventInputs =
  sex :: real
  age :: real
  tc :: "real option"
  hdl :: "real option"
  sbp :: real
  dm :: real
  smoking :: real
  bmi :: "real option"
  egfr :: real
  bptreat :: real
  statin :: "real option"
  uacr :: "real option"
  hba1c :: "real option"
  sdi :: "real option"

subsection \<open>Base model: the twelve log-odds formulas\<close>

text \<open>
  Each definition is one assignment \<open>logor_... = ...\<close> of \<open>preventBase\<close>, in the
  sex branch it stands in; the destructured locals \<open>age\<close>, \<open>tc\<close>, ... are the
  fields of the parameter record \<open>p\<close>.
\<close>

definition base_female_logor_10yr_CVD :: "PreventInputs \<Rightarrow> real" where
  "base_female_logor_10yr_CVD p =
     - 3.307728 +
     0.7939329 * (age p - 55) / 10 +
     0.0305239 * (mmol_conversion (or_num (tc p) 0 - or_num (hdl p) 0) - 3.5) -
     0.1606857 * (mmol_conversion (or_num (hdl p) 0) - 1.3) / 0.3 -
     0.2394003 * (min (sbp p) 110 - 110) / 20 +
     0.360078 * (max (sbp p) 110 - 130) / 20 +
     0.8667604 * dm p +
     0.5360739 * smoking p +
     0.6045917 * (min (egfr p) 60 - 60) / (- 15) +
     0.0433769 * (max (egfr p) 60 - 90) / (- 15) +
     0.3151672 * bptreat p -
     0.1477655 * or_num (statin p) 0 -
     0.0663612 * bptreat p * (max (sbp p) 110 - 130) / 20 +
     0.1197879 * or_num (statin p) 0 * (mmol_conversion (or_num (tc p) 0 - or_num (hdl p) 0) - 3.5) -
     0.0819715 * (age p - 55) / 10 * (mmol_conversion (or_num (tc p) 0 - or_num (hdl p) 0) - 3.5) +
     0.0306769 * (age p - 55) / 10 * (mmol_conversion (or_num (hdl p) 0) - 1.3) / 0.3 -
     0.0946348 * (age p - 55) / 10 * (max (sbp p) 110 - 130) / 20 -
     0.27057 * (age p - 55) / 10 * dm p -
     0.078715 * (age p - 55) / 10 * smoking p -
     0.1637806 * (age p - 55) / 10 * (min (egfr p) 60 - 60) / (- 15)"

definition base_female_logor_30yr_CVD :: "PreventInputs \<Rightarrow> real" where
  "base_female_logor_30yr_CVD p =
     - 1.318827 +
     0.5503079 * (age p - 55) / 10 -
     0.0928369 * ((age p - 55) / 10) ^ 2 +
     0.0409794 * (mmol_conversion (or_num (tc p) 0 - or_num (hdl p) 0) - 3.5) +
     (- 0.1663306) * (mmol_conversion (or_num (hdl p) 0) - 1.3) / 0.3 +
     (- 0.1628654) * (min (sbp p) 110 - 110) / 20 +
     0.3299505 * (max (sbp p) 110 - 130) / 20 +
     0.6793894 * dm p +
     0.3196112 * smoking p +
     0.1857101 * (min (egfr p) 60 - 60) / (- 15) +
     0.0553528 * (max (egfr p) 60 - 90) / (- 15) +
     0.2894 * bptreat p +
     (- 0.075688) * or_num (statin p) 0 +
     (- 0.056367) * bptreat p * (max (sbp p) 110 - 130) / 20 +
     0.1071019 * or_num (statin p) 0 * (mmol_conversion (or_num (tc p) 0 - or_num (hdl p) 0) - 3.5) +
     (- 0.0751438) * (age p - 55) / 10 * (mmol_conversion (or_num (tc p) 0 - or_num (hdl p) 0) - 3.5) +
     0.0301786 * (age p - 55) / 10 * (mmol_conversion (or_num (hdl p) 0) - 1.3) / 0.3 +
     (- 0.0998776) * (age p - 55) / 10 * (max (sbp p) 110 - 130) / 20 +
     (- 0.3206166) * (age p - 55) / 10 * dm p +
     (- 0.1607862) * (age p - 55) / 10 * smoking p +
     (- 0.1450788) * (age p - 55) / 10 * (min (egfr p) 60 - 60) / (- 15)"

definition base_female_logor_10yr_ASCVD :: "PreventInputs \<Rightarrow> real" where
  "base_female_logor_10yr_ASCVD p =
     - 3.819975 +
     0.719883 * (age p - 55) / 10 +
     0.1176967 * (mmol_conversion (or_num (tc p) 0) - mmol_conversion (or_num (hdl p) 0) - 3.5) -
     0.151185 * (mmol_conversion (or_num (hdl p) 0) - 1.3) / 0.3 -
     0.0835358 * (min (sbp p) 110 - 110) / 20 +
     0.3592852 * (max (sbp p) 110 - 130) / 20 +
     0.8348585 * dm p +
     0.4831078 * smoking p +
     0.4864619 * (min (egfr p) 60 - 60) / (- 15) +
     0.0397779 * (max (egfr p) 60 - 90) / (- 15) +
     0.2265309 * bptreat p -
     0.0592374 * or_num (statin p) 0 -
     0.0395762 * bptreat p * (max (sbp p) 110 - 130) / 20 +
     0.0844423 * or_num (statin p) 0 * (mmol_conversion (or_num (tc p) 0) - mmol_conversion (or_num (hdl p) 0) - 3.5) -
     0.0567839 * (age p - 55) / 10 * (mmol_conversion (or_num (tc p) 0) - mmol_conversion (or_num (hdl p) 0) - 3.5) +
     0.0325692 * (age p - 55) / 10 * (mmol_conversion (or_num (hdl p) 0) - 1.3) / 0.3 -
     0.1035985 * (age p - 55) / 10 * (max (sbp p) 110 - 130) / 20 -
     0.2417542 * (age p - 55) / 10 * dm p -
     0.0791142 * (age p - 55) / 10 * smoking p -
     0.1671492 * (age p - 55) / 10 * (min (egfr p) 60 - 60) / (- 15)"

definition base_female_logor_30yr_ASCVD :: "PreventInputs \<Rightarrow> real" where
  "base_female_logor_30yr_ASCVD p =
     - 1.974074 +
     0.4669202 * (age p - 55) / 10 -
     0.0893118 * ((age p - 55) / 10) ^ 2 +
     0.1256901 * (mmol_conversion (or_num (tc p) 0) - mmol_conversion (or_num (hdl p) 0) - 3.5) -
     0.1542255 * (mmol_conversion (or_num (hdl p) 0) - 1.3) / 0.3 -
     0.0018093 * (min (sbp p) 110 - 110) / 20 +
     0.322949 * (max (sbp p) 110 - 130) / 20 +
     0.6296707 * dm p +
     0.268292 * smoking p +
     0.100106 * (min (egfr p) 60 - 60) / (- 15) +
     0.0499663 * (max (egfr p) 60 - 90) / (- 15) +
     0.1875292 * bptreat p +
     0.0152476 * or_num (statin p) 0 -
     0.0276123 * bptreat p * (max (sbp p) 110 - 130) / 20 +
     0.0736147 * or_num (statin p) 0 * (mmol_conversion (or_num (tc p) 0) - mmol_conversion (or_num (hdl p) 0) - 3.5) -
     0.0521962 * (age p - 55) / 10 * (mmol_conversion (or_num (tc p) 0) - mmol_conversion (or_num (hdl p) 0) - 3.5) +
     0.0316918 * (age p - 55) / 10 * (mmol_conversion (or_num (hdl p) 0) - 1.3) / 0.3 -
     0.1046101 * (age p - 55) / 10 * (max (sbp p) 110 - 130) / 20 -
     0.2727793 * (age p - 55) / 10 * dm p -
     0.1530907 * (age p - 55) / 10 * smoking p -
     0.1299149 * (age p - 55) / 10 * (min (egfr p) 60 - 60) / (- 15)"

definition base_female_logor_10yr_HF :: "PreventInputs \<Rightarrow> real" where
  "base_female_logor_10yr_HF p =
     - 4.310409 +
     0.8998235 * (age p - 55) / 10 -
     0.4559771 * (min (sbp p) 110 - 110) / 20 +
     0.3576505 * (max (sbp p) 110 - 130) / 20 +
     1.038346 * dm p +
     0.583916 * smoking p -
     0.0072294 * (min (or_num (bmi p) 25) 30 - 25) / 5 +
     0.2997706 * (max (or_num (bmi p) 25) 30 - 30) / 5 +
     0.7451638 * (min (egfr p) 60 - 60) / (- 15) +
     0.0557087 * (max (egfr p) 60 - 90) / (- 15) +
     0.3534442 * bptreat p -
     0.0981511 * bptreat p * (max (sbp p) 110 - 130) / 20 -
     0.0946663 * (age p - 55) / 10 * (max (sbp p) 110 - 130) / 20 -
     0.3581041 * (age p - 55) / 10 * dm p -
     0.1159453 * (age p - 55) / 10 * smoking p -
     0.003878 * (age p - 55) / 10 * (max (or_num (bmi p) 25) 30 - 30) / 5 -
     0.1884289 * (age p - 55) / 10 * (min (egfr p) 60 - 60) / (- 15)"

definition base_female_logor_30yr_HF :: "PreventInputs \<Rightarrow> real" where
  "base_female_logor_30yr_HF p =
     - 2.205379 +
     0.6254374 * (age p - 55) / 10 -
     0.0983038 * ((age p - 55) / 10) ^ 2 -
     0.3919241 * (min (sbp p) 110 - 110) / 20 +
     0.3142295 * (max (sbp p) 110 - 130) / 20 +
     0.8330787 * dm p +
     0.3438651 * smoking p +
     0.0594874 * (min (or_num (bmi p) 25) 30 - 25) / 5 +
     0.2525536 * (max (or_num (bmi p) 25) 30 - 30) / 5 +
     0.2981642 * (min (egfr p) 60 - 60) / (- 15) +
     0.0667159 * (max (egfr p) 60 - 90) / (- 15) +
     0.333921 * bptreat p -
     0.0893177 * bptreat p * (max (sbp p) 110 - 130) / 20 -
     0.0974299 * (age p - 55) / 10 * (max (sbp p) 110 - 130) / 20 -
     0.404855 * (age p - 55) / 10 * dm p -
     0.1982991 * (age p - 55) / 10 * smoking p -
     0.0035619 * (age p - 55) / 10 * (max (or_num (bmi p) 25) 30 - 30) / 5 -
     0.1564215 * (age p - 55) / 10 * (min (egfr p) 60 - 60) / (- 15)"

definition base_male_logor_10yr_CVD :: "PreventInputs \<Rightarrow> real" where
  "base_male_logor_10yr_CVD p =
     - 3.031168 +
     0.7688528 * (age p - 55) / 10 +
     0.0736174 * (mmol_conversion (or_num (tc p) 0 - or_num (hdl p) 0) - 3.5) -
     0.0954431 * (mmol_conversion (or_num (hdl p) 0) - 1.3) / 0.3 -
     0.4347345 * (min (sbp p) 110 - 110) / 20 +
     0.3362658 * (max (sbp p) 110 - 130) / 20 +
     0.7692857 * dm p +
     0.4386871 * smoking p +
     0.5378979 * (min (egfr p) 60 - 60) / (- 15) +
     0.0164827 * (max (egfr p) 60 - 90) / (- 15) +
     0.288879 * bptreat p -
     0.1337349 * or_num (statin p) 0 -
     0.0475924 * bptreat p * (max (sbp p) 110 - 130) / 20 +
     0.150273 * or_num (statin p) 0 * (mmol_conversion (or_num (tc p) 0 - or_num (hdl p) 0) - 3.5) -
     0.0517874 * (age p - 55) / 10 * (mmol_conversion (or_num (tc p) 0 - or_num (hdl p) 0) - 3.5) +
     0.0191169 * (age p - 55) / 10 * (mmol_conversion (or_num (hdl p) 0) - 1.3) / 0.3 -
     0.1049477 * (age p - 55) / 10 * (max (sbp p) 110 - 130) / 20 -
     0.2251948 * (age p - 55) / 10 * dm p -
     0.0895067 * (age p - 55) / 10 * smoking p -
     0.1543702 * (age p - 55) / 10 * (min (egfr p) 60 - 60) / (- 15)"

definition base_male_logor_30yr_CVD :: "PreventInputs \<Rightarrow> real" where
  "base_male_logor_30yr_CVD p =
     - 1.148204 +
     0.4627309 * (age p - 55) / 10 -
     0.0984281 * ((age p - 55) / 10) ^ 2 +
     0.0836088 * (mmol_conversion (or_num (tc p) 0 - or_num (hdl p) 0) - 3.5) +
     (- 0.1029824) * (mmol_conversion (or_num (hdl p) 0) - 1.3) / 0.3 +
     (- 0.2140352) * (min (sbp p) 110 - 110) / 20 +
     0.2904325 * (max (sbp p) 110 - 130) / 20 +
     0.5331276 * dm p +
     0.2141914 * smoking p +
     0.1155556 * (min (egfr p) 60 - 60) / (- 15) +
     0.0603775 * (max (egfr p) 60 - 90) / (- 15) +
     0.232714 * bptreat p +
     (- 0.0272112) * or_num (statin p) 0 +
     (- 0.0384488) * bptreat p * (max (sbp p) 110 - 130) / 20 +
     0.134192 * or_num (statin p) 0 * (mmol_conversion (or_num (tc p) 0 - or_num (hdl p) 0) - 3.5) +
     (- 0.0511759) * (age p - 55) / 10 * (mmol_conversion (or_num (tc p) 0 - or_num (hdl p) 0) - 3.5) +
     0.0165865 * (age p - 55) / 10 * (mmol_conversion (or_num (hdl p) 0) - 1.3) / 0.3 +
     (- 0.1101437) * (age p - 55) / 10 * (max (sbp p) 110 - 130) / 20 +
     (- 0.2585943) * (age p - 55) / 10 * dm p +
     (- 0.1566406) * (age p - 55) / 10 * smoking p +
     (- 0.1166776) * (age p - 55) / 10 * (min (egfr p) 60 - 60) / (- 15)"

definition base_male_logor_10yr_ASCVD :: "PreventInputs \<Rightarrow> real" where
  "base_male_logor_10yr_ASCVD p =
     - 3.500655 +
     0.7099847 * (age p - 55) / 10 +
     0.1658663 * (mmol_conversion (or_num (tc p) 0) - mmol_conversion (or_num (hdl p) 0) - 3.5) -
     0.1144285 * (mmol_conversion (or_num (hdl p) 0) - 1.3) / 0.3 -
     0.2837212 * (min (sbp p) 110 - 110) / 20 +
     0.3239977 * (max (sbp p) 110 - 130) / 20 +
     0.7189597 * dm p +
     0.3956973 * smoking p +
     0.3690075 * (min (egfr p) 60 - 60) / (- 15) +
     0.0203619 * (max (egfr p) 60 - 90) / (- 15) +
     0.2036522 * bptreat p -
     0.0865581 * or_num (statin p) 0 -
     0.0322916 * bptreat p * (max (sbp p) 110 - 130) / 20 +
     0.114563 * or_num (statin p) 0 * (mmol_conversion (or_num (tc p) 0) - mmol_conversion (or_num (hdl p) 0) - 3.5) -
     0.0300005 * (age p - 55) / 10 * (mmol_conversion (or_num (tc p) 0) - mmol_conversion (or_num (hdl p) 0) - 3.5) +
     0.0232747 * (age p - 55) / 10 * (mmol_conversion (or_num (hdl p) 0) - 1.3) / 0.3 -
     0.0927024 * (age p - 55) / 10 * (max (sbp p) 110 - 130) / 20 -
     0.2018525 * (age p - 55) / 10 * dm p -
     0.0970527 * (age p - 55) / 10 * smoking p -
     0.1217081 * (age p - 55) / 10 * (min (egfr p) 60 - 60) / (- 15)"

definition base_male_logor_30yr_ASCVD :: "PreventInputs \<Rightarrow> real" where
  "base_male_logor_30yr_ASCVD p =
     - 1.736444 +
     0.3994099 * (age p - 55) / 10 -
     0.0937484 * ((age p - 55) / 10) ^ 2 +
     0.1744643 * (mmol_conversion (or_num (tc p) 0) - mmol_conversion (or_num (hdl p) 0) - 3.5) -
     0.120203 * (mmol_conversion (or_num (hdl p) 0) - 1.3) / 0.3 -
     0.0665117 * (min (sbp p) 110 - 110) / 20 +
     0.2753037 * (max (sbp p) 110 - 130) / 20 +
     0.4790257 * dm p +
     0.1782635 * smoking p -
     0.0218789 * (min (egfr p) 60 - 60) / (- 15) +
     0.0602553 * (max (egfr p) 60 - 90) / (- 15) +
     0.1421182 * bptreat p +
     0.0135996 * or_num (statin p) 0 -
     0.0218265 * bptreat p * (max (sbp p) 110 - 130) / 20 +
     0.1013148 * or_num (statin p) 0 * (mmol_conversion (or_num (tc p) 0) - mmol_conversion (or_num (hdl p) 0) - 3.5) -
     0.0312619 * (age p - 55) / 10 * (mmol_conversion (or_num (tc p) 0) - mmol_conversion (or_num (hdl p) 0) - 3.5) +
     0.020673 * (age p - 55) / 10 * (mmol_conversion (or_num (hdl p) 0) - 1.3) / 0.3 -
     0.0920935 * (age p - 55) / 10 * (max (sbp p) 110 - 130) / 20 -
     0.2159947 * (age p - 55) / 10 * dm p -
     0.1548811 * (age p - 55) / 10 * smoking p -
     0.0712547 * (age p - 55) / 10 * (min (egfr p) 60 - 60) / (- 15)"

definition base_male_logor_10yr_HF :: "PreventInputs \<Rightarrow> real" where
  "base_male_logor_10yr_HF p =
     - 3.946391 +
     0.8972642 * (age p - 55) / 10 -
     0.6811466 * (min (sbp p) 110 - 110) / 20 +
     0.3634461 * (max (sbp p) 110 - 130) / 20 +
     0.923776 * dm p +
     0.5023736 * smoking p -
     0.0485841 * (min (or_num (bmi p) 25) 30 - 25) / 5 +
     0.3726929 * (max (or_num (bmi p) 25) 30 - 30) / 5 +
     0.6926917 * (min (egfr p) 60 - 60) / (- 15) +
     0.0251827 * (max (egfr p) 60 - 90) / (- 15) +
     0.2980922 * bptreat p -
     0.0497731 * bptreat p * (max (sbp p) 110 - 130) / 20 -
     0.1289201 * (age p - 55) / 10 * (max (sbp p) 110 - 130) / 20 -
     0.3040924 * (age p - 55) / 10 * dm p -
     0.1401688 * (age p - 55) / 10 * smoking p +
     0.0068126 * (age p - 55) / 10 * (max (or_num (bmi p) 25) 30 - 30) / 5 -
     0.1797778 * (age p - 55) / 10 * (min (egfr p) 60 - 60) / (- 15)"

definition base_male_logor_30yr_HF :: "PreventInputs \<Rightarrow> real" where
  "base_male_logor_30yr_HF p =
     - 1.95751 +
     0.5681541 * (age p - 55) / 10 -
     0.1048388 * ((age p - 55) / 10) ^ 2 -
     0.4761564 * (min (sbp p) 110 - 110) / 20 +
     0.30324 * (max (sbp p) 110 - 130) / 20 +
     0.6840338 * dm p +
     0.2656273 * smoking p +
     0.0833107 * (min (or_num (bmi p) 25) 30 - 25) / 5 +
     0.26999 * (max (or_num (bmi p) 25) 30 - 30) / 5 +
     0.2541805 * (min (egfr p) 60 - 60) / (- 15) +
     0.0638923 * (max (egfr p) 60 - 90) / (- 15) +
     0.2583631 * bptreat p -
     0.0391938 * bptreat p * (max (sbp p) 110 - 130) / 20 -
     0.1269124 * (age p - 55) / 10 * (max (sbp p) 110 - 130) / 20 -
     0.3273572 * (age p - 55) / 10 * dm p -
     0.2043019 * (age p - 55) / 10 * smoking p -
     0.0182831 * (age p - 55) / 10 * (max (or_num (bmi p) 25) 30 - 30) / 5 -
     0.1342618 * (age p - 55) / 10 * (min (egfr p) 60 - 60) / (- 15)"

subsection \<open>Base model: \<open>preventBase\<close>\<close>

text \<open>
  The six local result variables \<open>prevent_10yr_CVD\<close>, ... of the function are the
  bindings \<open>r_10yr_CVD\<close>, ... here (the record fields keep the names of the result
  interface). They are assigned by the conversion of the log odds
  \<open>100 * Math.exp(l) / (1 + Math.exp(l))\<close> in double arithmetic, the 30-year ones only
  when \<open>calculate30yr\<close> and null otherwise, and are then nulled by the validation
  blocks in the order of the source: each block is its condition, bound to a name, and
  one guarded assignment for every variable the block sets to null.
\<close>

definition preventBase :: "PreventInputs \<Rightarrow> PreventResults" where
  "preventBase p =
     (if sex p \<noteq> 0 \<and> sex p \<noteq> 1 then
        \<lparr>prevent_10yr_CVD = None, prevent_30yr_CVD = None,
         prevent_10yr_ASCVD = None, prevent_30yr_ASCVD = None,
         prevent_10yr_HF = None, prevent_30yr_HF = None, model = Base\<rparr>
      else if age p < 30 \<or> age p > 79 then
        \<lparr>prevent_10yr_CVD = None, prevent_30yr_CVD = None,
         prevent_10yr_ASCVD = None, prevent_30yr_ASCVD = None,
         prevent_10yr_HF = None, prevent_30yr_HF = None, model = Base\<rparr>
      else
        let calculate30yr = (age p \<le> 59);
            logor_10yr_CVD =
              (if sex p = 1 then base_female_logor_10yr_CVD p
               else base_male_logor_10yr_CVD p);
            logor_30yr_CVD =
              (if calculate30yr
               then (if sex p = 1 then base_female_logor_30yr_CVD p
                     else base_male_logor_30yr_CVD p)
               else 0);
            logor_10yr_ASCVD =
              (if sex p = 1 then base_female_logor_10yr_ASCVD p
               else base_male_logor_10yr_ASCVD p);
            logor_30yr_ASCVD =
              (if calculate30yr
               then (if sex p = 1 then base_female_logor_30yr_ASCVD p
                     else base_male_logor_30yr_ASCVD p)
               else 0);
            logor_10yr_HF =
              (if sex p = 1 then base_female_logor_10yr_HF p
               else base_male_logor_10yr_HF p);
            logor_30yr_HF =
              (if calculate30yr
               then (if sex p = 1 then base_female_logor_30yr_HF p
                     else base_male_logor_30yr_HF p)
               else 0);
            r_10yr_CVD =
              Some (js_divide (js_times (Finite 100) (Math_exp logor_10yr_CVD))
                               (js_plus (Finite 1) (Math_exp logor_10yr_CVD)));
            r_10yr_ASCVD =
              Some (js_divide (js_times (Finite 100) (Math_exp logor_10yr_ASCVD))
                               (js_plus (Finite 1) (Math_exp logor_10yr_ASCVD)));
            r_10yr_HF =
              Some (js_divide (js_times (Finite 100) (Math_exp logor_10yr_HF))
                               (js_plus (Finite 1) (Math_exp logor_10yr_HF)));
            r_30yr_CVD =
              (if calculate30yr
               then Some (js_divide (js_times (Finite 100) (Math_exp logor_30yr_CVD))
                                    (js_plus (Finite 1) (Math_exp logor_30yr_CVD)))
               else None);
            r_30yr_ASCVD =
              (if calculate30yr
               then Some (js_divide (js_times (Finite 100) (Math_exp logor_30yr_ASCVD))
                                    (js_plus (Finite 1) (Math_exp logor_30yr_ASCVD)))
               else None);
            r_30yr_HF =
              (if calculate30yr
               then Some (js_divide (js_times (Finite 100) (Math_exp logor_30yr_HF))
                                    (js_plus (Finite 1) (Math_exp logor_30yr_HF)))
               else None);
            tc_rejected = (case tc p of None \<Rightarrow> True | Some t \<Rightarrow> t = 0 \<or> t < 130 \<or> t > 320);
            r_10yr_CVD = (if tc_rejected then None else r_10yr_CVD);
            r_30yr_CVD = (if tc_rejected then None else r_30yr_CVD);
            r_10yr_ASCVD = (if tc_rejected then None else r_10yr_ASCVD);
            r_30yr_ASCVD = (if tc_rejected then None else r_30yr_ASCVD);
            hdl_rejected = (case hdl p of None \<Rightarrow> True | Some h \<Rightarrow> h = 0 \<or> h < 20 \<or> h > 100);
            r_10yr_CVD = (if hdl_rejected then None else r_10yr_CVD);
            r_30yr_CVD = (if hdl_rejected then None else r_30yr_CVD);
            r_10yr_ASCVD = (if hdl_rejected then None else r_10yr_ASCVD);
            r_30yr_ASCVD = (if hdl_rejected then None else r_30yr_ASCVD);
            sbp_rejected = (sbp p < 90 \<or> sbp p > 200);
            r_10yr_CVD = (if sbp_rejected then None else r_10yr_CVD);
            r_30yr_CVD = (if sbp_rejected then None else r_30yr_CVD);
            r_10yr_ASCVD = (if sbp_rejected then None else r_10yr_ASCVD);
            r_30yr_ASCVD = (if sbp_rejected then None else r_30yr_ASCVD);
            r_10yr_HF = (if sbp_rejected then None else r_10yr_HF);
            r_30yr_HF = (if sbp_rejected then None else r_30yr_HF);
            egfr_rejected = (egfr p \<le> 0);
            r_10yr_CVD = (if egfr_rejected then None else r_10yr_CVD);
            r_30yr_CVD = (if egfr_rejected then None else r_30yr_CVD);
            r_10yr_ASCVD = (if egfr_rejected then None else r_10yr_ASCVD);
            r_30yr_ASCVD = (if egfr_rejected then None else r_30yr_ASCVD);
            r_10yr_HF = (if egfr_rejected then None else r_10yr_HF);
            r_30yr_HF = (if egfr_rejected then None else r_30yr_HF);
            statin_rejected = (statin p = None);
            r_10yr_CVD = (if statin_rejected then None else r_10yr_CVD);
            r_30yr_CVD = (if statin_rejected then None else r_30yr_CVD);
            r_10yr_ASCVD = (if statin_rejected then None else r_10yr_ASCVD);
            r_30yr_ASCVD = (if statin_rejected then None else r_30yr_ASCVD);
            bmi_rejected = (case bmi p of None \<Rightarrow> True | Some b \<Rightarrow> b = 0 \<or> b < 18.5 \<or> b \<ge> 40);
            r_10yr_HF = (if bmi_rejected then None else r_10yr_HF);
            r_30yr_HF = (if bmi_rejected then None else r_30yr_HF)
        in \<lparr>prevent_10yr_CVD = r_10yr_CVD, prevent_30yr_CVD = r_30yr_CVD,
            prevent_10yr_ASCVD = r_10yr_ASCVD, prevent_30yr_ASCVD = r_30yr_ASCVD,
            prevent_10yr_HF = r_10yr_HF, prevent_30yr_HF = r_30yr_HF, model = Base\<rparr>)"

subsection \<open>Full model: the closures over the optional variables\<close>

text \<open>
  \<open>getSdiTerm\<close>, \<open>getUacrTerm\<close> and \<open>getHba1cTerm\<close> capture \<open>sdi\<close>, \<open>uacr\<close>,
  \<open>hba1c\<close> and \<open>dm\<close> of the enclosing call; here they take the parameter record.
  \<open>Math.log\<close> is \<^const>\<open>ln\<close>; on a negative argument the source yields NaN, and the
  result of such a call is nulled by the validation of \<open>uacr\<close> below.
\<close>

definition getSdiTerm :: "PreventInputs \<Rightarrow> real \<Rightarrow> real \<Rightarrow> real \<Rightarrow> real" where
  "getSdiTerm p coef1 coef2 missingCoef =
     (case sdi p of
        Some s \<Rightarrow>
          (let sdiTertile = sdicat s
           in coef1 * (2 - sdiTertile) * sdiTertile +
              coef2 * (sdiTertile - 1) * (0.5 * sdiTertile))
      | None \<Rightarrow> missingCoef)"

definition getUacrTerm :: "PreventInputs \<Rightarrow> real \<Rightarrow> real \<Rightarrow> real" where
  "getUacrTerm p coef missingCoef =
     (case uacr p of
        Some u \<Rightarrow> coef * ln (adjust u)
      | None \<Rightarrow> missingCoef)"

definition getHba1cTerm :: "PreventInputs \<Rightarrow> real \<Rightarrow> real \<Rightarrow> real \<Rightarrow> real" where
  "getHba1cTerm p coefDm coefNoDm missingCoef =
     (case hba1c p of
        Some h \<Rightarrow> coefDm * (h - 5.3) * dm p + coefNoDm * (h - 5.3) * (1 - dm p)
      | None \<Rightarrow> missingCoef)"

subsection \<open>Full model: the twelve log-odds formulas\<close>

definition full_female_logor_10yr_CVD :: "PreventInputs \<Rightarrow> real" where
  "full_female_logor_10yr_CVD p =
     - 3.860385 +
     0.7716794 * (age p - 55) / 10 +
     0.0062109 * (mmol_conversion (or_num (tc p) 0 - or_num (hdl p) 0) - 3.5) -
     0.1547756 * (mmol_conversion (or_num (hdl p) 0) - 1.3) / 0.3 -
     0.1933123 * (min (sbp p) 110 - 110) / 20 +
     0.3071217 * (max (sbp p) 110 - 130) / 20 +
     0.496753 * dm p +
     0.466605 * smoking p +
     0.4780697 * (min (egfr p) 60 - 60) / (- 15) +
     0.0529077 * (max (egfr p) 60 - 90) / (- 15) +
     0.3034892 * bptreat p -
     0.1556524 * or_num (statin p) 0 -
     0.0667026 * bptreat p * (max (sbp p) 110 - 130) / 20 +
     0.1061825 * or_num (statin p) 0 * (mmol_conversion (or_num (tc p) 0 - or_num (hdl p) 0) - 3.5) -
     0.0742271 * (age p - 55) / 10 * (mmol_conversion (or_num (tc p) 0 - or_num (hdl p) 0) - 3.5) +
     0.0288245 * (age p - 55) / 10 * (mmol_conversion (or_num (hdl p) 0) - 1.3) / 0.3 -
     0.0875188 * (age p - 55) / 10 * (max (sbp p) 110 - 130) / 20 -
     0.2267102 * (age p - 55) / 10 * dm p -
     0.0676125 * (age p - 55) / 10 * smoking p -
     0.1493231 * (age p - 55) / 10 * (min (egfr p) 60 - 60) / (- 15) +
     getSdiTerm p 0.1361989 0.2261596 0.1804508 +
     getUacrTerm p 0.1645922 0.0198413 +
     getHba1cTerm p 0.1298513 0.1412555 (- 0.0031658)"

definition full_female_logor_10yr_ASCVD :: "PreventInputs \<Rightarrow> real" where
  "full_female_logor_10yr_ASCVD p =
     - 4.291503 +
     0.7023067 * (age p - 55) / 10 +
     0.0898765 * (mmol_conversion (or_num (tc p) 0) - mmol_conversion (or_num (hdl p) 0) - 3.5) -
     0.1407316 * (mmol_conversion (or_num (hdl p) 0) - 1.3) / 0.3 -
     0.0256648 * (min (sbp p) 110 - 110) / 20 +
     0.314511 * (max (sbp p) 110 - 130) / 20 +
     0.4799217 * dm p +
     0.4062049 * smoking p +
     0.3847744 * (min (egfr p) 60 - 60) / (- 15) +
     0.0495174 * (max (egfr p) 60 - 90) / (- 15) +
     0.2133861 * bptreat p -
     0.0678552 * or_num (statin p) 0 -
     0.0451416 * bptreat p * (max (sbp p) 110 - 130) / 20 +
     0.0788187 * or_num (statin p) 0 * (mmol_conversion (or_num (tc p) 0) - mmol_conversion (or_num (hdl p) 0) - 3.5) -
     0.0535985 * (age p - 55) / 10 * (mmol_conversion (or_num (tc p) 0) - mmol_conversion (or_num (hdl p) 0) - 3.5) +
     0.0291762 * (age p - 55) / 10 * (mmol_conversion (or_num (hdl p) 0) - 1.3) / 0.3 -
     0.0961839 * (age p - 55) / 10 * (max (sbp p) 110 - 130) / 20 -
     0.2001466 * (age p - 55) / 10 * dm p -
     0.0586472 * (age p - 55) / 10 * smoking p -
     0.1537791 * (age p - 55) / 10 * (min (egfr p) 60 - 60) / (- 15) +
     getSdiTerm p 0.1413965 0.228136 0.1588908 +
     getUacrTerm p 0.1371824 0.0061613 +
     getHba1cTerm p 0.123192 0.1410572 0.005866"

definition full_female_logor_10yr_HF :: "PreventInputs \<Rightarrow> real" where
  "full_female_logor_10yr_HF p =
     - 4.896524 +
     0.884209 * (age p - 55) / 10 -
     0.421474 * (min (sbp p) 110 - 110) / 20 +
     0.3002919 * (max (sbp p) 110 - 130) / 20 +
     0.6170359 * dm p +
     0.5380269 * smoking p -
     0.0191335 * (min (or_num (bmi p) 25) 30 - 25) / 5 +
     0.2764302 * (max (or_num (bmi p) 25) 30 - 30) / 5 +
     0.5975847 * (min (egfr p) 60 - 60) / (- 15) +
     0.0654197 * (max (egfr p) 60 - 90) / (- 15) +
     0.3313614 * bptreat p -
     0.1002304 * bptreat p * (max (sbp p) 110 - 130) / 20 -
     0.0845363 * (age p - 55) / 10 * (max (sbp p) 110 - 130) / 20 -
     0.2989062 * (age p - 55) / 10 * dm p -
     0.1111354 * (age p - 55) / 10 * smoking p +
     0.0008104 * (age p - 55) / 10 * (max (or_num (bmi p) 25) 30 - 30) / 5 -
     0.1666635 * (age p - 55) / 10 * (min (egfr p) 60 - 60) / (- 15) +
     getSdiTerm p 0.1213034 0.2314147 0.1819138 +
     getUacrTerm p 0.1948135 0.0395368 +
     getHba1cTerm p 0.176668 0.1614911 (- 0.0010583)"

definition full_female_logor_30yr_CVD :: "PreventInputs \<Rightarrow> real" where
  "full_female_logor_30yr_CVD p =
     - 1.748475 +
     0.5073749 * (age p - 55) / 10 -
     0.0981751 * ((age p - 55) / 10) ^ 2 +
     0.0162303 * (mmol_conversion (or_num (tc p) 0 - or_num (hdl p) 0) - 3.5) -
     0.1617147 * (mmol_conversion (or_num (hdl p) 0) - 1.3) / 0.3 -
     0.1111241 * (min (sbp p) 110 - 110) / 20 +
     0.282946 * (max (sbp p) 110 - 130) / 20 +
     0.4004069 * dm p +
     0.2918701 * smoking p +
     0.1017102 * (min (egfr p) 60 - 60) / (- 15) +
     0.0622643 * (max (egfr p) 60 - 90) / (- 15) +
     0.2872416 * bptreat p -
     0.0768135 * or_num (statin p) 0 -
     0.0557282 * bptreat p * (max (sbp p) 110 - 130) / 20 +
     0.0917585 * or_num (statin p) 0 * (mmol_conversion (or_num (tc p) 0 - or_num (hdl p) 0) - 3.5) -
     0.0679131 * (age p - 55) / 10 * (mmol_conversion (or_num (tc p) 0 - or_num (hdl p) 0) - 3.5) +
     0.029076 * (age p - 55) / 10 * (mmol_conversion (or_num (hdl p) 0) - 1.3) / 0.3 -
     0.0907755 * (age p - 55) / 10 * (max (sbp p) 110 - 130) / 20 -
     0.2702118 * (age p - 55) / 10 * dm p -
     0.1373216 * (age p - 55) / 10 * smoking p -
     0.1255864 * (age p - 55) / 10 * (min (egfr p) 60 - 60) / (- 15) +
     getSdiTerm p 0.1067741 0.1853138 0.1567115 +
     getUacrTerm p 0.1028065 (- 0.0006181) +
     getHba1cTerm p 0.0925285 0.0975598 0.0101713"

definition full_female_logor_30yr_ASCVD :: "PreventInputs \<Rightarrow> real" where
  "full_female_logor_30yr_ASCVD p =
     - 2.314066 +
     0.4386739 * (age p - 55) / 10 -
     0.0921956 * ((age p - 55) / 10) ^ 2 +
     0.0977728 * (mmol_conversion (or_num (tc p) 0) - mmol_conversion (or_num (hdl p) 0) - 3.5) -
     0.1453525 * (mmol_conversion (or_num (hdl p) 0) - 1.3) / 0.3 +
     0.0590925 * (min (sbp p) 110 - 110) / 20 +
     0.2862862 * (max (sbp p) 110 - 130) / 20 +
     0.3669136 * dm p +
     0.2354695 * smoking p +
     0.0354338 * (min (egfr p) 60 - 60) / (- 15) +
     0.0573093 * (max (egfr p) 60 - 90) / (- 15) +
     0.1840085 * bptreat p +
     0.0117504 * or_num (statin p) 0 -
     0.0331945 * bptreat p * (max (sbp p) 110 - 130) / 20 +
     0.0664311 * or_num (statin p) 0 * (mmol_conversion (or_num (tc p) 0) - mmol_conversion (or_num (hdl p) 0) - 3.5) -
     0.0492826 * (age p - 55) / 10 * (mmol_conversion (or_num (tc p) 0) - mmol_conversion (or_num (hdl p) 0) - 3.5) +
     0.0288888 * (age p - 55) / 10 * (mmol_conversion (or_num (hdl p) 0) - 1.3) / 0.3 -
     0.0964709 * (age p - 55) / 10 * (max (sbp p) 110 - 130) / 20 -
     0.2279648 * (age p - 55) / 10 * dm p -
     0.120405 * (age p - 55) / 10 * smoking p -
     0.1157635 * (age p - 55) / 10 * (min (egfr p) 60 - 60) / (- 15) +
     getSdiTerm p 0.1107632 0.1840367 0.1308962 +
     getUacrTerm p 0.0810739 (- 0.0147785) +
     getHba1cTerm p 0.0794709 0.1002615 0.017301"

definition full_female_logor_30yr_HF :: "PreventInputs \<Rightarrow> real" where
  "full_female_logor_30yr_HF p =
     - 2.642208 +
     0.5927507 * (age p - 55) / 10 -
     0.1028754 * ((age p - 55) / 10) ^ 2 -
     0.3593781 * (min (sbp p) 110 - 110) / 20 +
     0.2628556 * (max (sbp p) 110 - 130) / 20 +
     0.5113472 * dm p +
     0.347344 * smoking p +
     0.0564656 * (min (or_num (bmi p) 25) 30 - 25) / 5 +
     0.2363857 * (max (or_num (bmi p) 25) 30 - 30) / 5 +
     0.1971295 * (min (egfr p) 60 - 60) / (- 15) +
     0.0735227 * (max (egfr p) 60 - 90) / (- 15) +
     0.3219386 * bptreat p -
     0.0880321 * bptreat p * (max (sbp p) 110 - 130) / 20 -
     0.0863132 * (age p - 55) / 10 * (max (sbp p) 110 - 130) / 20 -
     0.3425359 * (age p - 55) / 10 * dm p -
     0.181405 * (age p - 55) / 10 * smoking p +
     0.0031285 * (age p - 55) / 10 * (max (or_num (bmi p) 25) 30 - 30) / 5 -
     0.1356989 * (age p - 55) / 10 * (min (egfr p) 60 - 60) / (- 15) +
     getSdiTerm p 0.0847634 0.18397 0.1485802 +
     getUacrTerm p 0.1273306 0.0167008 +
     getHba1cTerm p 0.1378342 0.1138832 0.0138979"

definition full_male_logor_10yr_CVD :: "PreventInputs \<Rightarrow> real" where
  "full_male_logor_10yr_CVD p =
     - 3.631387 +
     0.7847578 * (age p - 55) / 10 +
     0.0534485 * (mmol_conversion (or_num (tc p) 0 - or_num (hdl p) 0) - 3.5) -
     0.0911282 * (mmol_conversion (or_num (hdl p) 0) - 1.3) / 0.3 -
     0.4921973 * (min (sbp p) 110 - 110) / 20 +
     0.2972415 * (max (sbp p) 110 - 130) / 20 +
     0.4527054 * dm p +
     0.3726641 * smoking p +
     0.3886854 * (min (egfr p) 60 - 60) / (- 15) +
     0.0081661 * (max (egfr p) 60 - 90) / (- 15) +
     0.2508052 * bptreat p -
     0.1538484 * or_num (statin p) 0 -
     0.0474695 * bptreat p * (max (sbp p) 110 - 130) / 20 +
     0.1415382 * or_num (statin p) 0 * (mmol_conversion (or_num (tc p) 0 - or_num (hdl p) 0) - 3.5) -
     0.0436455 * (age p - 55) / 10 * (mmol_conversion (or_num (tc p) 0 - or_num (hdl p) 0) - 3.5) +
     0.0199549 * (age p - 55) / 10 * (mmol_conversion (or_num (hdl p) 0) - 1.3) / 0.3 -
     0.1022686 * (age p - 55) / 10 * (max (sbp p) 110 - 130) / 20 -
     0.1762507 * (age p - 55) / 10 * dm p -
     0.0715873 * (age p - 55) / 10 * smoking p -
     0.1428668 * (age p - 55) / 10 * (min (egfr p) 60 - 60) / (- 15) +
     getSdiTerm p 0.0802431 0.275073 0.144759 +
     getUacrTerm p 0.1772853 0.1095674 +
     getHba1cTerm p 0.1165698 0.1048297 (- 0.0230072)"

definition full_male_logor_10yr_ASCVD :: "PreventInputs \<Rightarrow> real" where
  "full_male_logor_10yr_ASCVD p =
     - 3.969788 +
     0.7128741 * (age p - 55) / 10 +
     0.1465201 * (mmol_conversion (or_num (tc p) 0) - mmol_conversion (or_num (hdl p) 0) - 3.5) -
     0.1125794 * (mmol_conversion (or_num (hdl p) 0) - 1.3) / 0.3 -
     0.3387216 * (min (sbp p) 110 - 110) / 20 +
     0.2980252 * (max (sbp p) 110 - 130) / 20 +
     0.399583 * dm p +
     0.3379111 * smoking p +
     0.2582604 * (min (egfr p) 60 - 60) / (- 15) +
     0.0147769 * (max (egfr p) 60 - 90) / (- 15) +
     0.1686621 * bptreat p -
     0.1073619 * or_num (statin p) 0 -
     0.0381038 * bptreat p * (max (sbp p) 110 - 130) / 20 +
     0.1034169 * or_num (statin p) 0 * (mmol_conversion (or_num (tc p) 0) - mmol_conversion (or_num (hdl p) 0) - 3.5) -
     0.0228755 * (age p - 55) / 10 * (mmol_conversion (or_num (tc p) 0) - mmol_conversion (or_num (hdl p) 0) - 3.5) +
     0.0267453 * (age p - 55) / 10 * (mmol_conversion (or_num (hdl p) 0) - 1.3) / 0.3 -
     0.0897449 * (age p - 55) / 10 * (max (sbp p) 110 - 130) / 20 -
     0.1497464 * (age p - 55) / 10 * dm p -
     0.077206 * (age p - 55) / 10 * smoking p -
     0.1198368 * (age p - 55) / 10 * (min (egfr p) 60 - 60) / (- 15) +
     getSdiTerm p 0.0651121 0.2676683 0.1388492 +
     getUacrTerm p 0.1375837 0.0652944 +
     getHba1cTerm p 0.101282 0.1092726 (- 0.0112852)"

definition full_male_logor_10yr_HF :: "PreventInputs \<Rightarrow> real" where
  "full_male_logor_10yr_HF p =
     - 4.663513 +
     0.9095703 * (age p - 55) / 10 -
     0.6765184 * (min (sbp p) 110 - 110) / 20 +
     0.3111651 * (max (sbp p) 110 - 130) / 20 +
     0.5535052 * dm p +
     0.4326811 * smoking p -
     0.0854286 * (min (or_num (bmi p) 25) 30 - 25) / 5 +
     0.3551736 * (max (or_num (bmi p) 25) 30 - 30) / 5 +
     0.5102245 * (min (egfr p) 60 - 60) / (- 15) +
     0.015472 * (max (egfr p) 60 - 90) / (- 15) +
     0.2570964 * bptreat p -
     0.0591177 * bptreat p * (max (sbp p) 110 - 130) / 20 -
     0.1219056 * (age p - 55) / 10 * (max (sbp p) 110 - 130) / 20 -
     0.2437577 * (age p - 55) / 10 * dm p -
     0.105363 * (age p - 55) / 10 * smoking p +
     0.0037907 * (age p - 55) / 10 * (max (or_num (bmi p) 25) 30 - 30) / 5 -
     0.1660207 * (age p - 55) / 10 * (min (egfr p) 60 - 60) / (- 15) +
     getSdiTerm p 0.1106372 0.3371204 0.1694628 +
     getUacrTerm p 0.2164607 0.1702805 +
     getHba1cTerm p 0.148297 0.1234088 (- 0.0234637)"

definition full_male_logor_30yr_CVD :: "PreventInputs \<Rightarrow> real" where
  "full_male_logor_30yr_CVD p =
     - 1.504558 +
     0.4427595 * (age p - 55) / 10 -
     0.1064108 * ((age p - 55) / 10) ^ 2 +
     0.0629381 * (mmol_conversion (or_num (tc p) 0 - or_num (hdl p) 0) - 3.5) -
     0.1015427 * (mmol_conversion (or_num (hdl p) 0) - 1.3) / 0.3 -
     0.2542326 * (min (sbp p) 110 - 110) / 20 +
     0.2549679 * (max (sbp p) 110 - 130) / 20 +
     0.333835 * dm p +
     0.1873833 * smoking p +
     0.0246102 * (min (egfr p) 60 - 60) / (- 15) +
     0.0552014 * (max (egfr p) 60 - 90) / (- 15) +
     0.1979729 * bptreat p -
     0.0407714 * or_num (statin p) 0 -
     0.0365522 * bptreat p * (max (sbp p) 110 - 130) / 20 +
     0.1232822 * or_num (statin p) 0 * (mmol_conversion (or_num (tc p) 0 - or_num (hdl p) 0) - 3.5) -
     0.0441334 * (age p - 55) / 10 * (mmol_conversion (or_num (tc p) 0 - or_num (hdl p) 0) - 3.5) +
     0.0177865 * (age p - 55) / 10 * (mmol_conversion (or_num (hdl p) 0) - 1.3) / 0.3 -
     0.1046657 * (age p - 55) / 10 * (max (sbp p) 110 - 130) / 20 -
     0.2116113 * (age p - 55) / 10 * dm p -
     0.1277905 * (age p - 55) / 10 * smoking p -
     0.0955922 * (age p - 55) / 10 * (min (egfr p) 60 - 60) / (- 15) +
     getSdiTerm p 0.0256704 0.1887637 0.089241 +
     getUacrTerm p 0.0894596 0.0710124 +
     getHba1cTerm p 0.0676202 0.063409 0.0038783"

definition full_male_logor_30yr_ASCVD :: "PreventInputs \<Rightarrow> real" where
  "full_male_logor_30yr_ASCVD p =
     - 1.985368 +
     0.3743566 * (age p - 55) / 10 -
     0.0995499 * ((age p - 55) / 10) ^ 2 +
     0.1544808 * (mmol_conversion (or_num (tc p) 0) - mmol_conversion (or_num (hdl p) 0) - 3.5) -
     0.1215297 * (mmol_conversion (or_num (hdl p) 0) - 1.3) / 0.3 -
     0.1083968 * (min (sbp p) 110 - 110) / 20 +
     0.2555179 * (max (sbp p) 110 - 130) / 20 +
     0.2696998 * dm p +
     0.1628432 * smoking p -
     0.077507 * (min (egfr p) 60 - 60) / (- 15) +
     0.0583407 * (max (egfr p) 60 - 90) / (- 15) +
     0.1120322 * bptreat p -
     0.0025063 * or_num (statin p) 0 -
     0.0256116 * bptreat p * (max (sbp p) 110 - 130) / 20 +
     0.0886745 * or_num (statin p) 0 * (mmol_conversion (or_num (tc p) 0) - mmol_conversion (or_num (hdl p) 0) - 3.5) -
     0.0254507 * (age p - 55) / 10 * (mmol_conversion (or_num (tc p) 0) - mmol_conversion (or_num (hdl p) 0) - 3.5) +
     0.0244639 * (age p - 55) / 10 * (mmol_conversion (or_num (hdl p) 0) - 1.3) / 0.3 -
     0.0869146 * (age p - 55) / 10 * (max (sbp p) 110 - 130) / 20 -
     0.165745 * (age p - 55) / 10 * dm p -
     0.1244714 * (age p - 55) / 10 * smoking p -
     0.0624552 * (age p - 55) / 10 * (min (egfr p) 60 - 60) / (- 15) +
     getSdiTerm p 0.015675 0.1864231 0.0845697 +
     getUacrTerm p 0.0560171 0.0252244 +
     getHba1cTerm p 0.0501422 0.0722905 0.0114945"

definition full_male_logor_30yr_HF :: "PreventInputs \<Rightarrow> real" where
  "full_male_logor_30yr_HF p =
     - 2.425439 +
     0.5478829 * (age p - 55) / 10 -
     0.1111928 * ((age p - 55) / 10) ^ 2 -
     0.4547346 * (min (sbp p) 110 - 110) / 20 +
     0.2527602 * (max (sbp p) 110 - 130) / 20 +
     0.4385384 * dm p +
     0.2397952 * smoking p +
     0.0640931 * (min (or_num (bmi p) 25) 30 - 25) / 5 +
     0.2643081 * (max (or_num (bmi p) 25) 30 - 30) / 5 +
     0.1354588 * (min (egfr p) 60 - 60) / (- 15) +
     0.0570689 * (max (egfr p) 60 - 90) / (- 15) +
     0.220666 * bptreat p -
     0.0436769 * bptreat p * (max (sbp p) 110 - 130) / 20 -
     0.1168376 * (age p - 55) / 10 * (max (sbp p) 110 - 130) / 20 -
     0.2730055 * (age p - 55) / 10 * dm p -
     0.1573691 * (age p - 55) / 10 * smoking p -
     0.0174998 * (age p - 55) / 10 * (max (or_num (bmi p) 25) 30 - 30) / 5 -
     0.1128676 * (age p - 55) / 10 * (min (egfr p) 60 - 60) / (- 15) +
     getSdiTerm p 0.057746 0.2446441 0.1076782 +
     getUacrTerm p 0.1233486 0.1274796 +
     getHba1cTerm p 0.0985062 0.0804844 0.0022806"

subsection \<open>Full model: \<open>preventFull\<close>\<close>

text \<open>
  The same frame as \<open>preventBase\<close>, with the full-model formulas, the tag
  \<open>'full'\<close> and three more validation blocks for the optional variables.
\<close>

definition preventFull :: "PreventInputs \<Rightarrow> PreventResults" where
  "preventFull p =
     (if sex p \<noteq> 0 \<and> sex p \<noteq> 1 then
        \<lparr>prevent_10yr_CVD = None, prevent_30yr_CVD = None,
         prevent_10yr_ASCVD = None, prevent_30yr_ASCVD = None,
         prevent_10yr_HF = None, prevent_30yr_HF = None, model = Full\<rparr>
      else if age p < 30 \<or> age p > 79 then
        \<lparr>prevent_10yr_CVD = None, prevent_30yr_CVD = None,
         prevent_10yr_ASCVD = None, prevent_30yr_ASCVD = None,
         prevent_10yr_HF = None, prevent_30yr_HF = None, model = Full\<rparr>
      else
        let calculate30yr = (age p \<le> 59);
            logor_10yr_CVD =
              (if sex p = 1 then full_female_logor_10yr_CVD p
               else full_male_logor_10yr_CVD p);
            logor_30yr_CVD =
              (if calculate30yr
               then (if sex p = 1 then full_female_logor_30yr_CVD p
                     else full_male_logor_30yr_CVD p)
               else 0);
            logor_10yr_ASCVD =
              (if sex p = 1 then full_female_logor_10yr_ASCVD p
               else full_male_logor_10yr_ASCVD p);
            logor_30yr_ASCVD =
              (if calculate30yr
               then (if sex p = 1 then full_female_logor_30yr_ASCVD p
                     else full_male_logor_30yr_ASCVD p)
               else 0);
            logor_10yr_HF =
              (if sex p = 1 then full_female_logor_10yr_HF p
               else full_male_logor_10yr_HF p);
            logor_30yr_HF =
              (if calculate30yr
               then (if sex p = 1 then full_female_logor_30yr_HF p
                     else full_male_logor_30yr_HF p)
               else 0);
            r_10yr_CVD =
              Some (js_divide (js_times (Finite 100) (Math_exp logor_10yr_CVD))
                               (js_plus (Finite 1) (Math_exp logor_10yr_CVD)));
            r_10yr_ASCVD =
              Some (js_divide (js_times (Finite 100) (Math_exp logor_10yr_ASCVD))
                               (js_plus (Finite 1) (Math_exp logor_10yr_ASCVD)));
            r_10yr_HF =
              Some (js_divide (js_times (Finite 100) (Math_exp logor_10yr_HF))
                               (js_plus (Finite 1) (Math_exp logor_10yr_HF)));
            r_30yr_CVD =
              (if calculate30yr
               then Some (js_divide (js_times (Finite 100) (Math_exp logor_30yr_CVD))
                                    (js_plus (Finite 1) (Math_exp logor_30yr_CVD)))
               else None);
            r_30yr_ASCVD =
              (if calculate30yr
               then Some (js_divide (js_times (Finite 100) (Math_exp logor_30yr_ASCVD))
                                    (js_plus (Finite 1) (Math_exp logor_30yr_ASCVD)))
               else None);
            r_30yr_HF =
              (if calculate30yr
               then Some (js_divide (js_times (Finite 100) (Math_exp logor_30yr_HF))
                                    (js_plus (Finite 1) (Math_exp logor_30yr_HF)))
               else None);
            tc_rejected = (case tc p of None \<Rightarrow> True | Some t \<Rightarrow> t = 0 \<or> t < 130 \<or> t > 320);
            r_10yr_CVD = (if tc_rejected then None else r_10yr_CVD);
            r_30yr_CVD = (if tc_rejected then None else r_30yr_CVD);
            r_10yr_ASCVD = (if tc_rejected then None else r_10yr_ASCVD);
            r_30yr_ASCVD = (if tc_rejected then None else r_30yr_ASCVD);
            hdl_rejected = (case hdl p of None \<Rightarrow> True | Some h \<Rightarrow> h = 0 \<or> h < 20 \<or> h > 100);
            r_10yr_CVD = (if hdl_rejected then None else r_10yr_CVD);
            r_30yr_CVD = (if hdl_rejected then None else r_30yr_CVD);
            r_10yr_ASCVD = (if hdl_rejected then None else r_10yr_ASCVD);
            r_30yr_ASCVD = (if hdl_rejected then None else r_30yr_ASCVD);
            sbp_rejected = (sbp p < 90 \<or> sbp p > 200);
            r_10yr_CVD = (if sbp_rejected then None else r_10yr_CVD);
            r_30yr_CVD = (if sbp_rejected then None else r_30yr_CVD);
            r_10yr_ASCVD = (if sbp_rejected then None else r_10yr_ASCVD);
            r_30yr_ASCVD = (if sbp_rejected then None else r_30yr_ASCVD);
            r_10yr_HF = (if sbp_rejected then None else r_10yr_HF);
            r_30yr_HF = (if sbp_rejected then None else r_30yr_HF);
            egfr_rejected = (egfr p \<le> 0);
            r_10yr_CVD = (if egfr_rejected then None else r_10yr_CVD);
            r_30yr_CVD = (if egfr_rejected then None else r_30yr_CVD);
            r_10yr_ASCVD = (if egfr_rejected then None else r_10yr_ASCVD);
            r_30yr_ASCVD = (if egfr_rejected then None else r_30yr_ASCVD);
            r_10yr_HF = (if egfr_rejected then None else r_10yr_HF);
            r_30yr_HF = (if egfr_rejected then None else r_30yr_HF);
            statin_rejected = (statin p = None);
            r_10yr_CVD = (if statin_rejected then None else r_10yr_CVD);
            r_30yr_CVD = (if statin_rejected then None else r_30yr_CVD);
            r_10yr_ASCVD = (if statin_rejected then None else r_10yr_ASCVD);
            r_30yr_ASCVD = (if statin_rejected then None else r_30yr_ASCVD);
            bmi_rejected = (case bmi p of None \<Rightarrow> True | Some b \<Rightarrow> b = 0 \<or> b < 18.5 \<or> b \<ge> 40);
            r_10yr_HF = (if bmi_rejected then None else r_10yr_HF);
            r_30yr_HF = (if bmi_rejected then None else r_30yr_HF);
            uacr_rejected = (case uacr p of None \<Rightarrow> False | Some u \<Rightarrow> u < 0);
            r_10yr_CVD = (if uacr_rejected then None else r_10yr_CVD);
            r_30yr_CVD = (if uacr_rejected then None else r_30yr_CVD);
            r_10yr_ASCVD = (if uacr_rejected then None else r_10yr_ASCVD);
            r_30yr_ASCVD = (if uacr_rejected then None else r_30yr_ASCVD);
            r_10yr_HF = (if uacr_rejected then None else r_10yr_HF);
            r_30yr_HF = (if uacr_rejected then None else r_30yr_HF);
            hba1c_rejected = (case hba1c p of None \<Rightarrow> False | Some h \<Rightarrow> h \<le> 0);
            r_10yr_CVD = (if hba1c_rejected then None else r_10yr_CVD);
            r_30yr_CVD = (if hba1c_rejected then None else r_30yr_CVD);
            r_10yr_ASCVD = (if hba1c_rejected then None else r_10yr_ASCVD);
            r_30yr_ASCVD = (if hba1c_rejected then None else r_30yr_ASCVD);
            r_10yr_HF = (if hba1c_rejected then None else r_10yr_HF);
            r_30yr_HF = (if hba1c_rejected then None else r_30yr_HF);
            sdi_rejected = (case sdi p of None \<Rightarrow> False | Some s \<Rightarrow> s < 1 \<or> s > 10);
            r_10yr_CVD = (if sdi_rejected then None else r_10yr_CVD);
            r_30yr_CVD = (if sdi_rejected then None else r_30yr_CVD);
            r_10yr_ASCVD = (if sdi_rejected then None else r_10yr_ASCVD);
            r_30yr_ASCVD = (if sdi_rejected then None else r_30yr_ASCVD);
            r_10yr_HF = (if sdi_rejected then None else r_10yr_HF);
            r_30yr_HF = (if sdi_rejected then None else r_30yr_HF)
        in \<lparr>prevent_10yr_CVD = r_10yr_CVD, prevent_30yr_CVD = r_30yr_CVD,
            prevent_10yr_ASCVD = r_10yr_ASCVD, prevent_30yr_ASCVD = r_30yr_ASCVD,
            prevent_10yr_HF = r_10yr_HF, prevent_30yr_HF = r_30yr_HF, model = Full\<rparr>)"


subsection \<open>Model selection: \<open>calculatePreventRisk\<close>\<close>

definition calculatePreventRisk :: "PreventInputs \<Rightarrow> PreventResults" where
  "calculatePreventRisk p =
     (let hasOptionalVars = (uacr p \<noteq> None \<or> hba1c p \<noteq> None \<or> sdi p \<noteq> None)
      in if hasOptionalVars then preventFull p else preventBase p)"

subsection \<open>Input domains and test inputs\<close>

text \<open>
  The domains that the comments of the interface \<open>PreventInputs\<close> give for its fields
  (\<open>age: 30-79 years\<close>, \<open>tc: 130-320 mg/dL\<close>, \<open>hdl: 20-100 mg/dL\<close>,
  \<open>sbp: 90-200 mmHg\<close>, \<open>bmi: 18.5-39.9\<close>, \<open>egfr > 0\<close>, \<open>uacr >= 0\<close>,
  \<open>hba1c > 0\<close>, \<open>sdi: 1-10\<close>), as predicates in which the properties below are stated.
  They are not part of the program.
\<close>

definition in_range :: "real option \<Rightarrow> real \<Rightarrow> real \<Rightarrow> bool" where
  "in_range v lo hi = (case v of None \<Rightarrow> False | Some x \<Rightarrow> lo \<le> x \<and> x \<le> hi)"

definition sex_age_valid :: "PreventInputs \<Rightarrow> bool" where
  "sex_age_valid p = ((sex p = 0 \<or> sex p = 1) \<and> 30 \<le> age p \<and> age p \<le> 79)"

definition sbp_egfr_valid :: "PreventInputs \<Rightarrow> bool" where
  "sbp_egfr_valid p = (90 \<le> sbp p \<and> sbp p \<le> 200 \<and> 0 < egfr p)"

definition chol_panel_valid :: "PreventInputs \<Rightarrow> bool" where
  "chol_panel_valid p =
     (in_range (tc p) 130 320 \<and> in_range (hdl p) 20 100 \<and> statin p \<noteq> None)"

definition bmi_valid :: "PreventInputs \<Rightarrow> bool" where
  "bmi_valid p = (case bmi p of None \<Rightarrow> False | Some b \<Rightarrow> 18.5 \<le> b \<and> b < 40)"

definition optional_valid :: "PreventInputs \<Rightarrow> bool" where
  "optional_valid p =
     ((case uacr p of None \<Rightarrow> True | Some u \<Rightarrow> 0 \<le> u) \<and>
      (case hba1c p of None \<Rightarrow> True | Some h \<Rightarrow> 0 < h) \<and>
      (case sdi p of None \<Rightarrow> True | Some s \<Rightarrow> 1 \<le> s \<and> s \<le> 10))"

text \<open>The six percentage fields of a result, and the result with all six null.\<close>

definition percentages :: "PreventResults \<Rightarrow> js_number option list" where
  "percentages r =
     [prevent_10yr_CVD r, prevent_30yr_CVD r, prevent_10yr_ASCVD r,
      prevent_30yr_ASCVD r, prevent_10yr_HF r, prevent_30yr_HF r]"

definition all_six_null :: "PreventResults \<Rightarrow> bool" where
  "all_six_null r = (percentages r = [None, None, None, None, None, None])"


text \<open>
  Scenario A of the clinical test cases: male, age 45, total cholesterol 180, HDL 50,
  systolic pressure 120, no diabetes, non-smoker, BMI 24, eGFR 95, no treatment, no
  statin, no optional variable. Scenario B omits \<open>tc\<close>; scenario C is a woman of 65
  with an SDI decile of 5.
\<close>

definition scenario_A :: PreventInputs where
  "scenario_A =
     \<lparr>sex = 0, age = 45, tc = Some 180, hdl = Some 50, sbp = 120, dm = 0, smoking = 0,
      bmi = Some 24, egfr = 95, bptreat = 0, statin = Some 0,
      uacr = None, hba1c = None, sdi = None\<rparr>"

definition scenario_B :: PreventInputs where
  "scenario_B = scenario_A\<lparr>tc := None\<rparr>"

definition scenario_C :: PreventInputs where
  "scenario_C = scenario_A\<lparr>sex := 1, age := 65, sdi := Some 5\<rparr>"

section \<open>Properties\<close>

subsection \<open>Auxiliary facts\<close>


lemmas scenario_defs = scenario_A_def scenario_B_def scenario_C_def

lemmas domain_defs =
  in_range_def sex_age_valid_def sbp_egfr_valid_def chol_panel_valid_def bmi_valid_def
  optional_valid_def

lemmas engine_defs = calculatePreventRisk_def preventBase_def preventFull_def Let_def

subsection \<open>Model selection\<close>

text \<open>
  C1. For every input record the \<open>model\<close> tag of the result of \<open>calculatePreventRisk\<close>
  is \<open>'full'\<close> if at least one of \<open>uacr\<close>, \<open>hba1c\<close>, \<open>sdi\<close> is defined and
  \<open>'base'\<close> if none is, whatever the values of these variables and whatever else is
  invalid in the input (the statement has no side condition on \<open>p\<close>).
\<close>

theorem model_reflects_presence:
  "model (calculatePreventRisk p) =
     (if uacr p = None \<and> hba1c p = None \<and> sdi p = None then Base else Full)"
  by (simp add: engine_defs)

theorem model_reflects_presence_witness:
  "model (calculatePreventRisk (scenario_A\<lparr>sex := 2, age := 10, uacr := Some (- 1)\<rparr>)) = Full
   \<and> model (calculatePreventRisk (scenario_A\<lparr>sex := 2, age := 10\<rparr>)) = Base"
  using model_reflects_presence [of "scenario_A\<lparr>sex := 2, age := 10, uacr := Some (- 1)\<rparr>"]
    model_reflects_presence [of "scenario_A\<lparr>sex := 2, age := 10\<rparr>"]
  by (simp add: scenario_defs)

text \<open>
  C8. The \<open>model\<close> tag of a result of \<open>calculatePreventRisk\<close> is always \<open>'base'\<close> or
  \<open>'full'\<close>; the tags \<open>'uacr'\<close>, \<open>'hba1c'\<close> and \<open>'sdi'\<close> of the declared result type
  are never produced.
\<close>

theorem model_base_or_full:
  "(model (calculatePreventRisk p) = Base \<or> model (calculatePreventRisk p) = Full)
   \<and> model (calculatePreventRisk p) \<notin> {Uacr, Hba1c, Sdi}"
  by (simp add: engine_defs)

theorem model_base_or_full_witness:
  "(model (calculatePreventRisk scenario_C) = Base
      \<or> model (calculatePreventRisk scenario_C) = Full)
   \<and> model (calculatePreventRisk scenario_C) \<notin> {Uacr, Hba1c, Sdi}"
  by (rule model_base_or_full [of scenario_C])

subsection \<open>The 30-year horizon\<close>

text \<open>
  C2. For every input with valid sex and age in [30,79]: if \<open>age > 59\<close>, the three
  30-year fields (CVD, ASCVD, HF) of the result of \<open>calculatePreventRisk\<close> are null,
  whatever the validity of the other inputs; and for \<open>age = 65\<close> with all other
  inputs valid, the three 30-year fields are null and the three 10-year fields are
  non-null. The second part asks nothing of \<open>dm\<close>, \<open>smoking\<close> and \<open>bptreat\<close>.
\<close>

theorem horizon_gate:
  "(sex_age_valid p \<and> 59 < age p \<longrightarrow>
      prevent_30yr_CVD (calculatePreventRisk p) = None
      \<and> prevent_30yr_ASCVD (calculatePreventRisk p) = None
      \<and> prevent_30yr_HF (calculatePreventRisk p) = None)
   \<and> (sex_age_valid p \<and> age p = 65 \<and> sbp_egfr_valid p \<and> chol_panel_valid p
        \<and> bmi_valid p \<and> optional_valid p \<longrightarrow>
      prevent_30yr_CVD (calculatePreventRisk p) = None
      \<and> prevent_30yr_ASCVD (calculatePreventRisk p) = None
      \<and> prevent_30yr_HF (calculatePreventRisk p) = None
      \<and> prevent_10yr_CVD (calculatePreventRisk p) \<noteq> None
      \<and> prevent_10yr_ASCVD (calculatePreventRisk p) \<noteq> None
      \<and> prevent_10yr_HF (calculatePreventRisk p) \<noteq> None)"
  by (auto simp: engine_defs domain_defs split: option.splits)

theorem horizon_gate_witness:
  "sex_age_valid scenario_C \<and> 59 < age scenario_C \<and> age scenario_C = 65
   \<and> sbp_egfr_valid scenario_C \<and> chol_panel_valid scenario_C
   \<and> bmi_valid scenario_C \<and> optional_valid scenario_C
   \<and> prevent_30yr_CVD (calculatePreventRisk scenario_C) = None
   \<and> prevent_30yr_ASCVD (calculatePreventRisk scenario_C) = None
   \<and> prevent_30yr_HF (calculatePreventRisk scenario_C) = None
   \<and> prevent_10yr_CVD (calculatePreventRisk scenario_C) \<noteq> None
   \<and> prevent_10yr_ASCVD (calculatePreventRisk scenario_C) \<noteq> None
   \<and> prevent_10yr_HF (calculatePreventRisk scenario_C) \<noteq> None"
proof -
  have h: "sex_age_valid scenario_C \<and> 59 < age scenario_C \<and> age scenario_C = 65
    \<and> sbp_egfr_valid scenario_C \<and> chol_panel_valid scenario_C
    \<and> bmi_valid scenario_C \<and> optional_valid scenario_C"
    by (simp add: scenario_defs domain_defs)
  with horizon_gate [of scenario_C] show ?thesis by blast
qed

text \<open>
  C9. For every input with valid sex and age in [30,59], the two horizons of an
  endpoint are null together: \<open>cvd_10yr\<close> is null iff \<open>cvd_30yr\<close> is, \<open>ascvd_10yr\<close> iff
  \<open>ascvd_30yr\<close>, and \<open>hf_10yr\<close> iff \<open>hf_30yr\<close>.
\<close>

theorem horizons_coupled:
  assumes "sex_age_valid p" and "age p \<le> 59"
  shows "(prevent_10yr_CVD (calculatePreventRisk p) = None
            \<longleftrightarrow> prevent_30yr_CVD (calculatePreventRisk p) = None)
       \<and> (prevent_10yr_ASCVD (calculatePreventRisk p) = None
            \<longleftrightarrow> prevent_30yr_ASCVD (calculatePreventRisk p) = None)
       \<and> (prevent_10yr_HF (calculatePreventRisk p) = None
            \<longleftrightarrow> prevent_30yr_HF (calculatePreventRisk p) = None)"
  using assms
  by (simp add: engine_defs sex_age_valid_def)

theorem horizons_coupled_witness:
  "sex_age_valid scenario_B \<and> age scenario_B \<le> 59
   \<and> (prevent_10yr_CVD (calculatePreventRisk scenario_B) = None
        \<longleftrightarrow> prevent_30yr_CVD (calculatePreventRisk scenario_B) = None)
   \<and> (prevent_10yr_ASCVD (calculatePreventRisk scenario_B) = None
        \<longleftrightarrow> prevent_30yr_ASCVD (calculatePreventRisk scenario_B) = None)
   \<and> (prevent_10yr_HF (calculatePreventRisk scenario_B) = None
        \<longleftrightarrow> prevent_30yr_HF (calculatePreventRisk scenario_B) = None)"
proof -
  have v: "sex_age_valid scenario_B" and a: "age scenario_B \<le> 59"
    by (simp_all add: scenario_defs domain_defs)
  from v a horizons_coupled [OF v a] show ?thesis by (intro conjI) simp_all
qed

subsection \<open>Nullification by the optional variables\<close>

text \<open>
  C3. When the full model is selected (at least one of \<open>uacr\<close>, \<open>hba1c\<close>, \<open>sdi\<close> is
  defined) and sex and age are valid: if \<open>uacr\<close> is defined and negative, or \<open>hba1c\<close>
  is defined and not positive, or \<open>sdi\<close> is defined and outside [1,10], then all six
  fields of the result of \<open>calculatePreventRisk\<close> are null, also for an input whose
  cholesterol panel and BMI are valid.
\<close>

theorem optional_range_nulls_all:
  assumes "sex_age_valid p"
    and "uacr p \<noteq> None \<or> hba1c p \<noteq> None \<or> sdi p \<noteq> None"
    and "(\<exists>u. uacr p = Some u \<and> u < 0) \<or> (\<exists>h. hba1c p = Some h \<and> h \<le> 0)
         \<or> (\<exists>s. sdi p = Some s \<and> (s < 1 \<or> s > 10))"
  shows "all_six_null (calculatePreventRisk p)"
  using assms
  by (auto simp: engine_defs all_six_null_def percentages_def)

theorem optional_range_nulls_all_witness:
  "sex_age_valid (scenario_A\<lparr>sdi := Some 11\<rparr>)
   \<and> sdi (scenario_A\<lparr>sdi := Some 11\<rparr>) = Some 11
   \<and> sbp_egfr_valid (scenario_A\<lparr>sdi := Some 11\<rparr>)
   \<and> chol_panel_valid (scenario_A\<lparr>sdi := Some 11\<rparr>)
   \<and> bmi_valid (scenario_A\<lparr>sdi := Some 11\<rparr>)
   \<and> all_six_null (calculatePreventRisk (scenario_A\<lparr>sdi := Some 11\<rparr>))"
proof -
  have v: "sex_age_valid (scenario_A\<lparr>sdi := Some 11\<rparr>)"
    and s: "sdi (scenario_A\<lparr>sdi := Some 11\<rparr>) = Some 11"
    and o: "sbp_egfr_valid (scenario_A\<lparr>sdi := Some 11\<rparr>)"
      "chol_panel_valid (scenario_A\<lparr>sdi := Some 11\<rparr>)"
      "bmi_valid (scenario_A\<lparr>sdi := Some 11\<rparr>)"
    by (simp_all add: scenario_defs domain_defs)
  have "all_six_null (calculatePreventRisk (scenario_A\<lparr>sdi := Some 11\<rparr>))"
    by (rule optional_range_nulls_all [OF v]) (simp_all add: s)
  with v s o show ?thesis by simp
qed

subsection \<open>Heart failure does not read the cholesterol panel\<close>

lemma base_HF_ignores_chol:
  "base_female_logor_10yr_HF (p\<lparr>tc := t, hdl := h, statin := s\<rparr>) = base_female_logor_10yr_HF p"
  "base_female_logor_30yr_HF (p\<lparr>tc := t, hdl := h, statin := s\<rparr>) = base_female_logor_30yr_HF p"
  "base_male_logor_10yr_HF (p\<lparr>tc := t, hdl := h, statin := s\<rparr>) = base_male_logor_10yr_HF p"
  "base_male_logor_30yr_HF (p\<lparr>tc := t, hdl := h, statin := s\<rparr>) = base_male_logor_30yr_HF p"
  by (simp_all add: base_female_logor_10yr_HF_def base_female_logor_30yr_HF_def
      base_male_logor_10yr_HF_def base_male_logor_30yr_HF_def)

lemma full_terms_ignore_chol:
  "getSdiTerm (p\<lparr>tc := t, hdl := h, statin := s\<rparr>) a b c = getSdiTerm p a b c"
  "getUacrTerm (p\<lparr>tc := t, hdl := h, statin := s\<rparr>) a c = getUacrTerm p a c"
  "getHba1cTerm (p\<lparr>tc := t, hdl := h, statin := s\<rparr>) a b c = getHba1cTerm p a b c"
  by (simp_all add: getSdiTerm_def getUacrTerm_def getHba1cTerm_def split: option.splits)

lemma full_HF_ignores_chol:
  "full_female_logor_10yr_HF (p\<lparr>tc := t, hdl := h, statin := s\<rparr>) = full_female_logor_10yr_HF p"
  "full_female_logor_30yr_HF (p\<lparr>tc := t, hdl := h, statin := s\<rparr>) = full_female_logor_30yr_HF p"
  "full_male_logor_10yr_HF (p\<lparr>tc := t, hdl := h, statin := s\<rparr>) = full_male_logor_10yr_HF p"
  "full_male_logor_30yr_HF (p\<lparr>tc := t, hdl := h, statin := s\<rparr>) = full_male_logor_30yr_HF p"
  by (simp_all add: full_female_logor_10yr_HF_def full_female_logor_30yr_HF_def
      full_male_logor_10yr_HF_def full_male_logor_30yr_HF_def full_terms_ignore_chol)

lemma HF_fields_ignore_chol:
  "prevent_10yr_HF (calculatePreventRisk (p\<lparr>tc := t, hdl := h, statin := s\<rparr>))
     = prevent_10yr_HF (calculatePreventRisk p)"
  "prevent_30yr_HF (calculatePreventRisk (p\<lparr>tc := t, hdl := h, statin := s\<rparr>))
     = prevent_30yr_HF (calculatePreventRisk p)"
  by (simp_all add: engine_defs base_HF_ignores_chol full_HF_ignores_chol)

text \<open>
  C10. Two inputs that differ only in the fields \<open>tc\<close>, \<open>hdl\<close> and \<open>statin\<close> (all
  eleven other fields agree) give results of \<open>calculatePreventRisk\<close> with the same
  \<open>hf_10yr\<close> and the same \<open>hf_30yr\<close>, in nullity and in value.
\<close>

theorem hf_independent_of_chol:
  assumes "sex p = sex q" "age p = age q" "sbp p = sbp q" "dm p = dm q"
    "smoking p = smoking q" "bmi p = bmi q" "egfr p = egfr q" "bptreat p = bptreat q"
    "uacr p = uacr q" "hba1c p = hba1c q" "sdi p = sdi q"
  shows "prevent_10yr_HF (calculatePreventRisk p) = prevent_10yr_HF (calculatePreventRisk q)
       \<and> prevent_30yr_HF (calculatePreventRisk p) = prevent_30yr_HF (calculatePreventRisk q)"
proof -
  have "q = p\<lparr>tc := tc q, hdl := hdl q, statin := statin q\<rparr>"
    using assms by (intro PreventInputs.equality) simp_all
  then obtain t h s where q: "q = p\<lparr>tc := t, hdl := h, statin := s\<rparr>" by blast
  show ?thesis unfolding q by (simp only: HF_fields_ignore_chol)
qed

theorem hf_independent_of_chol_witness:
  "tc (scenario_A\<lparr>tc := None, hdl := Some 500, statin := None\<rparr>) \<noteq> tc scenario_A
   \<and> prevent_10yr_HF (calculatePreventRisk scenario_A)
     = prevent_10yr_HF (calculatePreventRisk
         (scenario_A\<lparr>tc := None, hdl := Some 500, statin := None\<rparr>))
   \<and> prevent_30yr_HF (calculatePreventRisk scenario_A)
     = prevent_30yr_HF (calculatePreventRisk
         (scenario_A\<lparr>tc := None, hdl := Some 500, statin := None\<rparr>))"
proof -
  have "prevent_10yr_HF (calculatePreventRisk scenario_A)
     = prevent_10yr_HF (calculatePreventRisk
         (scenario_A\<lparr>tc := None, hdl := Some 500, statin := None\<rparr>))
   \<and> prevent_30yr_HF (calculatePreventRisk scenario_A)
     = prevent_30yr_HF (calculatePreventRisk
         (scenario_A\<lparr>tc := None, hdl := Some 500, statin := None\<rparr>))"
    by (rule hf_independent_of_chol) simp_all
  moreover have "tc (scenario_A\<lparr>tc := None, hdl := Some 500, statin := None\<rparr>)
      \<noteq> tc scenario_A"
    by (simp add: scenario_defs)
  ultimately show ?thesis by simp
qed

subsection \<open>The cholesterol gate\<close>

text \<open>
  C4. For every input with valid sex, age, \<open>sbp\<close> and \<open>egfr\<close>: if \<open>tc\<close> is absent or
  outside [130,320], or \<open>hdl\<close> is absent or outside [20,100], or \<open>statin\<close> is undefined,
  then \<open>cvd_10yr\<close>, \<open>cvd_30yr\<close>, \<open>ascvd_10yr\<close> and \<open>ascvd_30yr\<close> are null, and
  \<open>hf_10yr\<close> and \<open>hf_30yr\<close> are what they are for any other cholesterol panel \<open>t\<close>,
  \<open>h\<close>, \<open>s\<close> (a valid one among them) in the same input. In scenario B the four
  CVD/ASCVD fields are null, the two HF fields are non-null and the model is \<open>base\<close>.
\<close>

theorem chol_gate:
  "(sex_age_valid p \<and> sbp_egfr_valid p \<and> \<not> chol_panel_valid p \<longrightarrow>
      prevent_10yr_CVD (calculatePreventRisk p) = None
      \<and> prevent_30yr_CVD (calculatePreventRisk p) = None
      \<and> prevent_10yr_ASCVD (calculatePreventRisk p) = None
      \<and> prevent_30yr_ASCVD (calculatePreventRisk p) = None
      \<and> prevent_10yr_HF (calculatePreventRisk p)
          = prevent_10yr_HF (calculatePreventRisk (p\<lparr>tc := t, hdl := h, statin := s\<rparr>))
      \<and> prevent_30yr_HF (calculatePreventRisk p)
          = prevent_30yr_HF (calculatePreventRisk (p\<lparr>tc := t, hdl := h, statin := s\<rparr>)))
   \<and> prevent_10yr_CVD (calculatePreventRisk scenario_B) = None
   \<and> prevent_30yr_CVD (calculatePreventRisk scenario_B) = None
   \<and> prevent_10yr_ASCVD (calculatePreventRisk scenario_B) = None
   \<and> prevent_30yr_ASCVD (calculatePreventRisk scenario_B) = None
   \<and> prevent_10yr_HF (calculatePreventRisk scenario_B) \<noteq> None
   \<and> prevent_30yr_HF (calculatePreventRisk scenario_B) \<noteq> None
   \<and> model (calculatePreventRisk scenario_B) = Base"
proof -
  have nulls: "prevent_10yr_CVD (calculatePreventRisk p) = None
      \<and> prevent_30yr_CVD (calculatePreventRisk p) = None
      \<and> prevent_10yr_ASCVD (calculatePreventRisk p) = None
      \<and> prevent_30yr_ASCVD (calculatePreventRisk p) = None"
    if "\<not> chol_panel_valid p"
    using that by (auto simp: engine_defs domain_defs split: option.splits)
  have B: "prevent_10yr_CVD (calculatePreventRisk scenario_B) = None
   \<and> prevent_30yr_CVD (calculatePreventRisk scenario_B) = None
   \<and> prevent_10yr_ASCVD (calculatePreventRisk scenario_B) = None
   \<and> prevent_30yr_ASCVD (calculatePreventRisk scenario_B) = None
   \<and> prevent_10yr_HF (calculatePreventRisk scenario_B) \<noteq> None
   \<and> prevent_30yr_HF (calculatePreventRisk scenario_B) \<noteq> None
   \<and> model (calculatePreventRisk scenario_B) = Base"
    by (simp add: engine_defs scenario_defs)
  from nulls B show ?thesis by (simp add: HF_fields_ignore_chol)
qed

theorem chol_gate_witness:
  "sex_age_valid (scenario_A\<lparr>hdl := Some 15\<rparr>)
   \<and> sbp_egfr_valid (scenario_A\<lparr>hdl := Some 15\<rparr>)
   \<and> \<not> chol_panel_valid (scenario_A\<lparr>hdl := Some 15\<rparr>)
   \<and> prevent_10yr_CVD (calculatePreventRisk (scenario_A\<lparr>hdl := Some 15\<rparr>)) = None
   \<and> prevent_30yr_CVD (calculatePreventRisk (scenario_A\<lparr>hdl := Some 15\<rparr>)) = None
   \<and> prevent_10yr_ASCVD (calculatePreventRisk (scenario_A\<lparr>hdl := Some 15\<rparr>)) = None
   \<and> prevent_30yr_ASCVD (calculatePreventRisk (scenario_A\<lparr>hdl := Some 15\<rparr>)) = None
   \<and> prevent_10yr_HF (calculatePreventRisk (scenario_A\<lparr>hdl := Some 15\<rparr>))
       = prevent_10yr_HF (calculatePreventRisk scenario_A)
   \<and> prevent_30yr_HF (calculatePreventRisk (scenario_A\<lparr>hdl := Some 15\<rparr>))
       = prevent_30yr_HF (calculatePreventRisk scenario_A)"
proof -
  have h: "sex_age_valid (scenario_A\<lparr>hdl := Some 15\<rparr>)
      \<and> sbp_egfr_valid (scenario_A\<lparr>hdl := Some 15\<rparr>)
      \<and> \<not> chol_panel_valid (scenario_A\<lparr>hdl := Some 15\<rparr>)"
    by (simp add: scenario_defs domain_defs)
  have u: "scenario_A\<lparr>hdl := Some 15\<rparr>\<lparr>tc := Some 180, hdl := Some 50, statin := Some 0\<rparr>
      = scenario_A"
    by (simp add: scenario_defs)
  from h chol_gate [where p = "scenario_A\<lparr>hdl := Some 15\<rparr>" and t = "Some 180"
      and h = "Some 50" and s = "Some 0"]
  show ?thesis unfolding u by blast
qed

subsection \<open>Range of the percentages\<close>



















subsection \<open>Conversion helpers\<close>

text \<open>
  C6. For every real \<open>u\<close>, \<open>adjust u\<close> is \<open>u\<close> if \<open>u \<ge> 0.1\<close>, is \<open>0.1\<close> if
  \<open>0 \<le> u < 0.1\<close>, and is \<open>u\<close> itself for negative \<open>u\<close> (no clamping); in particular
  \<open>adjust 0.05 = 0.1\<close>, \<open>adjust 0.1 = 0.1\<close> and \<open>adjust 5 = 5\<close>.
\<close>

theorem adjust_cases:
  "(u \<ge> 0.1 \<longrightarrow> adjust u = u)
   \<and> (0 \<le> u \<and> u < 0.1 \<longrightarrow> adjust u = 0.1)
   \<and> (u < 0 \<longrightarrow> adjust u = u)
   \<and> adjust 0.05 = 0.1 \<and> adjust 0.1 = 0.1 \<and> adjust 5 = 5"
  by (simp add: adjust_def)

theorem adjust_cases_witness:
  "adjust 0.25 = 0.25 \<and> adjust 0.01 = 0.1 \<and> adjust (- 3) = - 3"
  using adjust_cases [of "0.25"] adjust_cases [of "0.01"] adjust_cases [of "- 3"]
  by simp

text \<open>
  C7. For all real \<open>t\<close> and \<open>h\<close>, the cholesterol delta of the CVD formulas,
  \<open>mmol_conversion (t - h) - 3.5\<close>, equals the grouping of the ASCVD formulas,
  \<open>mmol_conversion t - mmol_conversion h - 3.5\<close>, in exact arithmetic;
  \<open>mmol_conversion\<close> is the linear map \<open>x \<mapsto> 0.02586 * x\<close>.
\<close>

theorem chol_delta_groupings:
  "mmol_conversion (t - h) - 3.5 = mmol_conversion t - mmol_conversion h - 3.5
   \<and> mmol_conversion x = 0.02586 * x"
  by (simp add: mmol_conversion_def right_diff_distrib)

end
